theory Spec2Isabelle
  imports Complex_Main "HOL-Library.AList"
begin

section \<open>Exceptions (app/exceptions.py and the built-in classes the code catches)\<close>

text \<open>
  The six classes of \<^verbatim>\<open>app/exceptions.py\<close> derive from \<^verbatim>\<open>OCRException\<close>, which derives
  from \<^verbatim>\<open>Exception\<close>. The other classes are the Python and library classes that the
  \<^verbatim>\<open>except\<close> clauses of the code name or that the calls it makes raise:
  \<^verbatim>\<open>IOError\<close> is \<^verbatim>\<open>OSError\<close> in Python 3, \<^verbatim>\<open>PIL.UnidentifiedImageError\<close> derives from
  \<^verbatim>\<open>OSError\<close>, \<^verbatim>\<open>UnicodeDecodeError\<close> and \<^verbatim>\<open>json.JSONDecodeError\<close> derive from
  \<^verbatim>\<open>ValueError\<close>. \<open>OtherError n\<close> is any further class \<open>n\<close> directly under \<^verbatim>\<open>Exception\<close>.
  An exception value carries its class and \<^verbatim>\<open>str(e)\<close>; the \<^verbatim>\<open>from e\<close> chaining is not
  modelled.
\<close>

datatype exn_class =
    Exception
  | OCRException | ImageLoadError | APIError | ValidationError
  | ConfigurationError | JSONParseError
  | OSError | UnidentifiedImageError
  | ValueError | UnicodeDecodeError | JSONDecodeError
  | TypeError
  | OtherError string

datatype exn = Exn (exn_class: exn_class) (str: string)

fun base_class :: "exn_class \<Rightarrow> exn_class" where
  "base_class ImageLoadError = OCRException"
| "base_class APIError = OCRException"
| "base_class ValidationError = OCRException"
| "base_class ConfigurationError = OCRException"
| "base_class JSONParseError = OCRException"
| "base_class UnidentifiedImageError = OSError"
| "base_class UnicodeDecodeError = ValueError"
| "base_class JSONDecodeError = ValueError"
| "base_class c = Exception"

text \<open>The hierarchy is two levels deep below \<^verbatim>\<open>Exception\<close>.\<close>

definition issubclass :: "exn_class \<Rightarrow> exn_class \<Rightarrow> bool" where
  "issubclass c d = (c = d \<or> base_class c = d \<or> base_class (base_class c) = d)"

definition isinstance :: "exn \<Rightarrow> exn_class \<Rightarrow> bool" where
  "isinstance e d = issubclass (exn_class e) d"

section \<open>Values exchanged with the libraries\<close>

text \<open>
  A decoded \<^verbatim>\<open>PIL.Image\<close>: the attributes the code reads. A response of the remote
  service: \<^verbatim>\<open>text\<close>, \<^verbatim>\<open>prompt_feedback\<close> (absent or falsy is \<open>None\<close>) with its
  \<^verbatim>\<open>block_reason\<close> (absent or falsy is \<open>None\<close>, otherwise its \<^verbatim>\<open>str\<close>), and
  \<^verbatim>\<open>usage_metadata\<close> (falsy is \<open>None\<close>). Floating-point numbers are values of an
  unspecified type \<open>'f\<close>: the code only passes them on.
\<close>

record image =
  image_format :: "string option"
  image_size :: "nat \<times> nat"

record usage =
  prompt_token_count :: int
  candidates_token_count :: int

record feedback =
  block_reason :: "string option"

record response =
  response_text :: "string option"
  prompt_feedback :: "feedback option"
  usage_metadata :: "usage option"

record 'f GenerateContentConfig =
  temperature :: 'f
  top_p :: 'f
  response_mime_type :: string
  system_instruction :: string

record 'f request =
  model :: string
  contents_image :: image
  contents_prompt :: string
  config :: "'f GenerateContentConfig"

text \<open>
  What \<^verbatim>\<open>json.loads\<close> returns. A \<^verbatim>\<open>dict\<close> keeps its keys in insertion order, so an
  object is an association list.
\<close>

datatype 'f json =
    JNull | JBool bool | JInt int | JFloat 'f | JString string
  | JArray "'f json list" | JObject "(string \<times> 'f json) list"

section \<open>The world outside the program\<close>

text \<open>
  The operating system, the file system, the libraries and the remote service are not part
  of the repository. Each call the code makes to them is a field of \<open>world\<close>, returning
  either the exception the call raises or its result.
  \<^item> \<open>load_dotenv\<close>: what \<^verbatim>\<open>dotenv.load_dotenv()\<close> does to \<^verbatim>\<open>os.environ\<close>;
  \<^item> \<open>py_float\<close>: \<^verbatim>\<open>float(s)\<close> on a string; \<open>Inl m\<close> is the \<^verbatim>\<open>ValueError\<close> it raises on a
    string that is not a number, with message \<open>m\<close>;
  \<^item> \<open>genai_Client\<close>: \<^verbatim>\<open>genai.Client(api_key=k)\<close>, returning the new handle;
  \<^item> \<open>generate_content\<close>: \<^verbatim>\<open>client.models.generate_content\<close>; its first argument is the
    number of calls made before this one, so that the service may answer differently each
    time; a falsy result is \<open>None\<close>;
  \<^item> \<open>path_exists\<close>, \<open>path_is_file\<close>, \<open>os_access_R_OK\<close>, \<open>path_str\<close>: \<^verbatim>\<open>Path(p).exists()\<close>,
    \<^verbatim>\<open>Path(p).is_file()\<close>, \<^verbatim>\<open>os.access(Path(p), os.R_OK)\<close>, \<^verbatim>\<open>str(Path(p))\<close>;
  \<^item> \<open>open_read\<close>: opening a file as UTF-8 text and reading all of it;
  \<^item> \<open>Image_open\<close>, \<open>Image_load\<close>: \<^verbatim>\<open>PIL.Image.open\<close> and \<^verbatim>\<open>image.load()\<close>, the
    latter returning the image as it is after the call;
  \<^item> \<open>json_loads\<close>: \<^verbatim>\<open>json.loads\<close>.
\<close>

record 'f world =
  load_dotenv :: "(string \<rightharpoonup> string) \<Rightarrow> (string \<rightharpoonup> string)"
  py_float :: "string \<Rightarrow> string + 'f"
  genai_Client :: "string \<Rightarrow> exn + nat"
  generate_content :: "nat \<Rightarrow> nat \<Rightarrow> 'f request \<Rightarrow> exn + response option"
  path_exists :: "string \<Rightarrow> bool"
  path_is_file :: "string \<Rightarrow> bool"
  os_access_R_OK :: "string \<Rightarrow> bool"
  path_str :: "string \<Rightarrow> string"
  open_read :: "string \<Rightarrow> exn + string"
  Image_open :: "string \<Rightarrow> exn + image"
  Image_load :: "image \<Rightarrow> exn + image"
  json_loads :: "string \<Rightarrow> exn + 'f json"

section \<open>The state of the process\<close>

text \<open>
  The module-level and class-level variables of the program, and \<^verbatim>\<open>os.environ\<close>:
  \<^item> \<open>load_dotenv_called\<close> is \<^verbatim>\<open>settings._load_dotenv_called\<close>;
  \<^item> \<open>Settings_api_key\<close>, \<open>Settings_model_id\<close>, \<open>Settings_temperature\<close>, \<open>Settings_top_p\<close>
    are the class attributes \<^verbatim>\<open>Settings._api_key\<close> ... \<^verbatim>\<open>Settings._top_p\<close>;
  \<^item> \<open>GeminiOCRClient_instance\<close> is the class attribute \<^verbatim>\<open>GeminiOCRClient._instance\<close>,
    the address of an object; \<open>allocated\<close> is the number of objects of the class created so
    far, and the next address; \<open>client_attr a\<close> is the instance attribute \<^verbatim>\<open>_client\<close> of the
    object at address \<open>a\<close>, \<open>None\<close> when the object has none and the lookup
    \<^verbatim>\<open>self._client\<close> falls back to the class attribute, which is always \<^verbatim>\<open>None\<close>;
  \<^item> \<open>PROMPT_CACHE\<close> is \<^verbatim>\<open>pipeline._PROMPT_CACHE\<close>.

  Three fields record the calls made to the world and have no counterpart in the
  source: \<open>handles_opened\<close> counts the handles \<^verbatim>\<open>genai.Client\<close> has returned,
  \<open>files_opened\<close> lists the paths \<^verbatim>\<open>read_file\<close> has opened (latest first), and
  \<open>generate_calls\<close> counts the calls of \<^verbatim>\<open>generate_content\<close>.
\<close>

record 'f proc =
  environ :: "string \<rightharpoonup> string"
  load_dotenv_called :: bool
  Settings_api_key :: "string option"
  Settings_model_id :: "string option"
  Settings_temperature :: "'f option"
  Settings_top_p :: "'f option"
  GeminiOCRClient_instance :: "nat option"
  allocated :: nat
  client_attr :: "nat \<rightharpoonup> nat"
  PROMPT_CACHE :: "string \<rightharpoonup> string"
  handles_opened :: nat
  files_opened :: "string list"
  generate_calls :: nat

text \<open>A statement of the program: it runs in a state and either raises or returns.\<close>

type_synonym ('f, 'a) py = "'f proc \<Rightarrow> (exn + 'a) \<times> 'f proc"

definition ret :: "'a \<Rightarrow> ('f, 'a) py" where
  "ret v = (\<lambda>s. (Inr v, s))"

definition raise :: "exn \<Rightarrow> ('f, 'a) py" where
  "raise e = (\<lambda>s. (Inl e, s))"

definition lift :: "exn + 'a \<Rightarrow> ('f, 'a) py" where
  "lift r = (\<lambda>s. (r, s))"

definition then_do :: "('f, 'a) py \<Rightarrow> ('a \<Rightarrow> ('f, 'b) py) \<Rightarrow> ('f, 'b) py" where
  "then_do m k = (\<lambda>s. case m s of (Inl e, s') \<Rightarrow> (Inl e, s') | (Inr v, s') \<Rightarrow> k v s')"

definition try_except :: "('f, 'a) py \<Rightarrow> (exn \<Rightarrow> ('f, 'a) py) \<Rightarrow> ('f, 'a) py" where
  "try_except m h = (\<lambda>s. case m s of (Inl e, s') \<Rightarrow> h e s' | (Inr v, s') \<Rightarrow> (Inr v, s'))"

section \<open>app/config/settings.py\<close>

definition ensure_env_loaded :: "'f world \<Rightarrow> 'f proc \<Rightarrow> 'f proc" where
  "ensure_env_loaded w s =
     (if load_dotenv_called s then s
      else s\<lparr>environ := load_dotenv w (environ s), load_dotenv_called := True\<rparr>)"

text \<open>\<^verbatim>\<open>os.getenv(key, default)\<close>.\<close>

definition os_getenv :: "'f proc \<Rightarrow> string \<Rightarrow> string \<Rightarrow> string" where
  "os_getenv s key dflt = (case environ s key of None \<Rightarrow> dflt | Some v \<Rightarrow> v)"

text \<open>
  \<^verbatim>\<open>Settings._get_api_key\<close>: the attribute is assigned before it is tested, so an empty
  value stays in the attribute after the error.
\<close>

definition priv_get_api_key :: "'f world \<Rightarrow> ('f, string) py" where
  "priv_get_api_key w s0 =
     (let s = ensure_env_loaded w s0 in
      case Settings_api_key s of
        Some k \<Rightarrow> (Inr k, s)
      | None \<Rightarrow>
          (let s' = s\<lparr>Settings_api_key := environ s ''GEMINI_API_KEY''\<rparr> in
           case Settings_api_key s' of
             None \<Rightarrow>
               (Inl (Exn ConfigurationError ''GEMINI_API_KEY environment variable is not set''), s')
           | Some k \<Rightarrow>
               if k = [] then
                 (Inl (Exn ConfigurationError ''GEMINI_API_KEY environment variable is not set''), s')
               else (Inr k, s')))"

definition priv_get_model_id :: "'f world \<Rightarrow> ('f, string) py" where
  "priv_get_model_id w s0 =
     (let s = ensure_env_loaded w s0 in
      case Settings_model_id s of
        Some k \<Rightarrow> (Inr k, s)
      | None \<Rightarrow>
          (let s' = s\<lparr>Settings_model_id := environ s ''GEMINI_MODEL''\<rparr> in
           case Settings_model_id s' of
             None \<Rightarrow>
               (Inl (Exn ConfigurationError ''GEMINI_MODEL environment variable is not set''), s')
           | Some k \<Rightarrow>
               if k = [] then
                 (Inl (Exn ConfigurationError ''GEMINI_MODEL environment variable is not set''), s')
               else (Inr k, s')))"

text \<open>
  \<^verbatim>\<open>Settings._get_temperature\<close> and \<^verbatim>\<open>Settings._get_top_p\<close>: \<^verbatim>\<open>float(...)\<close> is evaluated
  before the assignment, and nothing catches the \<^verbatim>\<open>ValueError\<close> it raises.
\<close>

definition priv_get_temperature :: "'f world \<Rightarrow> ('f, 'f) py" where
  "priv_get_temperature w s0 =
     (let s = ensure_env_loaded w s0 in
      case Settings_temperature s of
        Some t \<Rightarrow> (Inr t, s)
      | None \<Rightarrow>
          (case py_float w (os_getenv s ''TEMPERATURE'' ''0.0'') of
             Inl m \<Rightarrow> (Inl (Exn ValueError m), s)
           | Inr t \<Rightarrow> (Inr t, s\<lparr>Settings_temperature := Some t\<rparr>)))"

definition priv_get_top_p :: "'f world \<Rightarrow> ('f, 'f) py" where
  "priv_get_top_p w s0 =
     (let s = ensure_env_loaded w s0 in
      case Settings_top_p s of
        Some t \<Rightarrow> (Inr t, s)
      | None \<Rightarrow>
          (case py_float w (os_getenv s ''TOP_P'' ''0.1'') of
             Inl m \<Rightarrow> (Inl (Exn ValueError m), s)
           | Inr t \<Rightarrow> (Inr t, s\<lparr>Settings_top_p := Some t\<rparr>)))"

definition get_api_key :: "'f world \<Rightarrow> ('f, string) py" where
  "get_api_key w = priv_get_api_key w"

definition get_model_id :: "'f world \<Rightarrow> ('f, string) py" where
  "get_model_id w = priv_get_model_id w"

definition get_temperature :: "'f world \<Rightarrow> ('f, 'f) py" where
  "get_temperature w = priv_get_temperature w"

definition get_top_p :: "'f world \<Rightarrow> ('f, 'f) py" where
  "get_top_p w = priv_get_top_p w"

section \<open>app/utils/validation.py\<close>

definition validate_image_path :: "'f world \<Rightarrow> string \<Rightarrow> exn + string" where
  "validate_image_path w image_path =
     (if image_path = [] then Inl (Exn ValidationError ''Image path cannot be empty'')
      else if \<not> path_exists w image_path then
        Inl (Exn ValidationError (''Image path does not exist: '' @ image_path))
      else if \<not> path_is_file w image_path then
        Inl (Exn ValidationError (''Image path is not a file: '' @ image_path))
      else if \<not> os_access_R_OK w image_path then
        Inl (Exn ValidationError (''Image file is not readable: '' @ image_path))
      else Inr (path_str w image_path))"

definition validate_image_format :: "image \<Rightarrow> exn + unit" where
  "validate_image_format img =
     (if image_format img = None then
        Inl (Exn ImageLoadError ''Image format could not be determined'')
      else if fst (image_size img) = 0 \<or> snd (image_size img) = 0 then
        Inl (Exn ImageLoadError ''Image has invalid dimensions'')
      else Inr ())"

section \<open>app/processors/image_loader.py\<close>

text \<open>
  \<^verbatim>\<open>image.load()\<close> works on the image in place; \<open>Image_load\<close> returns the image as it is
  after the call.
\<close>

definition load_image :: "'f world \<Rightarrow> string \<Rightarrow> exn + image" where
  "load_image w path =
     (case
        (case validate_image_path w path of
           Inl e \<Rightarrow> Inl e
         | Inr validated_path \<Rightarrow>
             (case Image_open w validated_path of
                Inl e \<Rightarrow> Inl e
              | Inr opened \<Rightarrow>
                  (case Image_load w opened of
                     Inl e \<Rightarrow> Inl e
                   | Inr img \<Rightarrow>
                       (case validate_image_format img of
                          Inl e \<Rightarrow> Inl e
                        | Inr _ \<Rightarrow> Inr img))))
      of
        Inl e \<Rightarrow>
          if isinstance e OSError \<or> isinstance e UnidentifiedImageError then
            Inl (Exn ImageLoadError (''Failed to load image from '' @ path @ '': '' @ str e))
          else Inl e
      | Inr img \<Rightarrow> Inr img)"

section \<open>app/utils/file_utils.py\<close>

definition read_file :: "'f world \<Rightarrow> string \<Rightarrow> ('f, string) py" where
  "read_file w path = (\<lambda>s.
     if \<not> path_exists w path then
       (Inl (Exn ValidationError (''File does not exist: '' @ path)), s)
     else if \<not> path_is_file w path then
       (Inl (Exn ValidationError (''Path is not a file: '' @ path)), s)
     else
       (let s' = s\<lparr>files_opened := path # files_opened s\<rparr> in
        case open_read w path of
          Inl e \<Rightarrow>
            if isinstance e OSError \<or> isinstance e UnicodeDecodeError then
              (Inl (Exn ValidationError (''Failed to read file '' @ path @ '': '' @ str e)), s')
            else (Inl e, s')
        | Inr content \<Rightarrow> (Inr content, s')))"

section \<open>app/ocr/gemini_client.py\<close>

text \<open>
  \<^verbatim>\<open>GeminiOCRClient.__new__\<close>: a new object has no instance attribute.
\<close>

definition GeminiOCRClient_new :: "('f, nat) py" where
  "GeminiOCRClient_new = (\<lambda>s.
     case GeminiOCRClient_instance s of
       None \<Rightarrow>
         (let a = allocated s in
          (Inr a, s\<lparr>GeminiOCRClient_instance := Some a, allocated := Suc a,
                     client_attr := (client_attr s)(a := None)\<rparr>))
     | Some a \<Rightarrow> (Inr a, s))"

text \<open>\<^verbatim>\<open>GeminiOCRClient.__init__\<close>.\<close>

definition GeminiOCRClient_init :: "'f world \<Rightarrow> nat \<Rightarrow> ('f, unit) py" where
  "GeminiOCRClient_init w self = (\<lambda>s.
     case client_attr s self of
       Some h \<Rightarrow> (Inr (), s)
     | None \<Rightarrow>
         try_except
           (then_do (get_api_key w) (\<lambda>key.
            then_do (lift (genai_Client w key)) (\<lambda>h s1.
              (Inr (), s1\<lparr>client_attr := (client_attr s1)(self \<mapsto> h),
                          handles_opened := Suc (handles_opened s1)\<rparr>))))
           (\<lambda>e.
              if isinstance e ConfigurationError then
                raise (Exn ConfigurationError (''Failed to initialize Gemini client: '' @ str e))
              else raise (Exn APIError (''Failed to create Gemini client: '' @ str e)))
           s)"

text \<open>
  The call \<^verbatim>\<open>GeminiOCRClient()\<close>: \<^verbatim>\<open>__new__\<close>, then \<^verbatim>\<open>__init__\<close> on the object it
  returned.
\<close>

definition GeminiOCRClient :: "'f world \<Rightarrow> ('f, nat) py" where
  "GeminiOCRClient w =
     then_do GeminiOCRClient_new (\<lambda>self.
     then_do (GeminiOCRClient_init w self) (\<lambda>_. ret self))"

text \<open>The property \<^verbatim>\<open>client\<close>.\<close>

definition client :: "nat \<Rightarrow> ('f, nat) py" where
  "client self = (\<lambda>s.
     case client_attr s self of
       None \<Rightarrow> (Inl (Exn APIError ''Client not initialized''), s)
     | Some h \<Rightarrow> (Inr h, s))"

text \<open>
  The function \<^verbatim>\<open>extract\<close> as written, before the decorator is applied. The arguments of
  the configuration are evaluated first, then \<^verbatim>\<open>self.client\<close>, then the model id.
\<close>

definition extract_wrapped ::
  "'f world \<Rightarrow> nat \<Rightarrow> image \<Rightarrow> string \<Rightarrow> string \<Rightarrow> ('f, response) py" where
  "extract_wrapped w self img system_prompt user_prompt =
     try_except
       (then_do (get_temperature w) (\<lambda>t.
        then_do (get_top_p w) (\<lambda>p.
        then_do (client self) (\<lambda>h.
        then_do (get_model_id w) (\<lambda>m.
        then_do (\<lambda>s.
           (generate_content w (generate_calls s) h
              \<lparr>model = m, contents_image = img, contents_prompt = user_prompt,
               config = \<lparr>temperature = t, top_p = p,
                         response_mime_type = ''application/json'',
                         system_instruction = system_prompt\<rparr>\<rparr>,
            s\<lparr>generate_calls := Suc (generate_calls s)\<rparr>)) (\<lambda>r.
          case r of
            None \<Rightarrow> raise (Exn APIError ''Empty response from Gemini API'')
          | Some resp \<Rightarrow>
              (case (case prompt_feedback resp of None \<Rightarrow> None | Some fb \<Rightarrow> block_reason fb) of
                 Some reason \<Rightarrow>
                   raise (Exn APIError (''Content blocked by safety filters: '' @ reason))
               | None \<Rightarrow>
                   if response_text resp = None \<or> response_text resp = Some [] then
                     raise (Exn APIError ''Empty response text from Gemini API'')
                   else ret resp)))))))
       (\<lambda>e.
          if isinstance e APIError then raise e
          else raise (Exn APIError (''Gemini API call failed: '' @ str e)))"

text \<open>
  The decorator \<^verbatim>\<open>@retry(stop=stop_after_attempt(3), wait=wait_exponential(...),
  retry=retry_if_exception_type(APIError), reraise=True)\<close>. The loop itself is in the
  library \<^verbatim>\<open>tenacity\<close>, not in the repository; \<open>retry_loop\<close> is that loop for the
  parameters the decorator gives: attempt \<open>n\<close> calls the function; a result is returned;
  an exception that the retry predicate rejects is raised as it is; after an exception the
  predicate accepts, the loop stops once \<open>n\<close> has reached the maximum and, with
  \<^verbatim>\<open>reraise=True\<close>, raises the exception of the last attempt; otherwise it sleeps and
  makes attempt \<open>n + 1\<close>. The sleep is not modelled. The loop also returns the number of
  attempts made (\<^verbatim>\<open>attempt_number\<close> of tenacity's statistics).
\<close>

function retry_loop ::
  "nat \<Rightarrow> (exn \<Rightarrow> bool) \<Rightarrow> ('f, 'a) py \<Rightarrow> nat \<Rightarrow> 'f proc \<Rightarrow> (exn + 'a) \<times> nat \<times> 'f proc" where
  "retry_loop max_attempts retry fn n s =
     (case fn s of
        (Inr v, s') \<Rightarrow> (Inr v, n, s')
      | (Inl e, s') \<Rightarrow>
          if \<not> retry e then (Inl e, n, s')
          else if max_attempts \<le> n then (Inl e, n, s')
          else retry_loop max_attempts retry fn (Suc n) s')"
  by pat_completeness auto
termination
  by (relation "measure (\<lambda>(max_attempts, retry, fn, n, s). max_attempts - n)") auto

declare retry_loop.simps [simp del]

text \<open>
  The method \<^verbatim>\<open>GeminiOCRClient.extract\<close> as callers see it, with the decorator applied.
\<close>

definition GeminiOCRClient_extract ::
  "'f world \<Rightarrow> nat \<Rightarrow> image \<Rightarrow> string \<Rightarrow> string \<Rightarrow> ('f, response) py" where
  "GeminiOCRClient_extract w self img system_prompt user_prompt = (\<lambda>s.
     case retry_loop 3 (\<lambda>e. isinstance e APIError)
            (extract_wrapped w self img system_prompt user_prompt) 1 s of
       (r, n, s') \<Rightarrow> (r, s'))"

section \<open>app/pipeline.py\<close>

definition get_cached_prompt :: "'f world \<Rightarrow> string \<Rightarrow> ('f, string) py" where
  "get_cached_prompt w path = (\<lambda>s.
     case PROMPT_CACHE s path of
       Some content \<Rightarrow> (Inr content, s)
     | None \<Rightarrow>
         (case read_file w path s of
            (Inl e, s') \<Rightarrow> (Inl e, s')
          | (Inr content, s') \<Rightarrow>
              (Inr content, s'\<lparr>PROMPT_CACHE := (PROMPT_CACHE s')(path \<mapsto> content)\<rparr>)))"

text \<open>
  The message of the \<^verbatim>\<open>TypeError\<close> that \<^verbatim>\<open>data["usage_metadata"] = ...\<close> raises when the
  parsed value is not a \<^verbatim>\<open>dict\<close>.
\<close>

fun setitem_error :: "'f json \<Rightarrow> string" where
  "setitem_error (JArray xs) = ''list indices must be integers or slices, not str''"
| "setitem_error JNull =
     [CHR 0x27] @ ''NoneType'' @ [CHR 0x27] @ '' object does not support item assignment''"
| "setitem_error (JBool b) =
     [CHR 0x27] @ ''bool'' @ [CHR 0x27] @ '' object does not support item assignment''"
| "setitem_error (JInt i) =
     [CHR 0x27] @ ''int'' @ [CHR 0x27] @ '' object does not support item assignment''"
| "setitem_error (JFloat x) =
     [CHR 0x27] @ ''float'' @ [CHR 0x27] @ '' object does not support item assignment''"
| "setitem_error (JString t) =
     [CHR 0x27] @ ''str'' @ [CHR 0x27] @ '' object does not support item assignment''"
| "setitem_error (JObject kvs) = []"

text \<open>
  \<^verbatim>\<open>run_pipeline\<close>. \<^verbatim>\<open>json.loads\<close> of a text that is \<^verbatim>\<open>None\<close> raises \<^verbatim>\<open>TypeError\<close>.
  Assigning to a key of a \<^verbatim>\<open>dict\<close> replaces the value of a key that is there and adds a
  new key at the end, which is \<open>AList.update\<close>.
\<close>

definition run_pipeline :: "'f world \<Rightarrow> string \<Rightarrow> ('f, 'f json) py" where
  "run_pipeline w image_path =
     try_except
       (then_do (lift (load_image w image_path)) (\<lambda>img.
        then_do (get_cached_prompt w ''app/prompts/system.txt'') (\<lambda>system_prompt.
        then_do (get_cached_prompt w ''app/prompts/extraction.txt'') (\<lambda>user_prompt.
        then_do (GeminiOCRClient w) (\<lambda>ocr_client.
        then_do (GeminiOCRClient_extract w ocr_client img system_prompt user_prompt) (\<lambda>response.
        then_do
          (case response_text response of
             None \<Rightarrow>
               raise (Exn TypeError
                 ''the JSON object must be str, bytes or bytearray, not NoneType'')
           | Some t \<Rightarrow>
               (case json_loads w t of
                  Inl e \<Rightarrow>
                    if isinstance e JSONDecodeError then
                      raise (Exn JSONParseError (''Failed to parse JSON response: '' @ str e))
                    else raise e
                | Inr data \<Rightarrow> ret data)) (\<lambda>data.
          case usage_metadata response of
            None \<Rightarrow> ret data
          | Some u \<Rightarrow>
              (case data of
                 JObject kvs \<Rightarrow>
                   ret (JObject (AList.update ''usage_metadata''
                     (JObject [(''input_tokens'', JInt (prompt_token_count u)),
                               (''output_tokens'', JInt (candidates_token_count u)),
                               (''note'', JString ''Populated from Gemini API'')]) kvs))
               | _ \<Rightarrow> raise (Exn TypeError (setitem_error data))))))))))
       (\<lambda>e.
          if isinstance e OCRException then raise e
          else raise (Exn OCRException (''Pipeline execution failed: '' @ str e)))"

section \<open>The start of a process, and an example world\<close>

text \<open>
  When the process starts, every module-level and class-level variable has the value its
  declaration gives it.
\<close>

definition process_start :: "(string \<rightharpoonup> string) \<Rightarrow> 'f proc" where
  "process_start env =
     \<lparr>environ = env, load_dotenv_called = False,
      Settings_api_key = None, Settings_model_id = None,
      Settings_temperature = None, Settings_top_p = None,
      GeminiOCRClient_instance = None, allocated = 0, client_attr = Map.empty,
      PROMPT_CACHE = Map.empty,
      handles_opened = 0, files_opened = [], generate_calls = 0\<rparr>"

text \<open>
  A world in which everything works, used to run the program on concrete inputs: every
  path is a readable file, the two prompt files have a line of text each, every image is
  a 640 by 480 WEBP, and the service answers call number \<open>n\<close> with \<open>service n\<close>. Floats are
  real numbers here, and \<open>py_float\<close> knows the two default literals.
\<close>

definition example_image :: image where
  "example_image = \<lparr>image_format = Some ''WEBP'', image_size = (640, 480)\<rparr>"

definition example_response :: "usage option \<Rightarrow> response" where
  \<open>example_response u =
     \<lparr>response_text = Some ''{"a":1}'', prompt_feedback = None, usage_metadata = u\<rparr>\<close>

definition example_env :: "string \<rightharpoonup> string" where
  "example_env = [''GEMINI_API_KEY'' \<mapsto> ''secret'', ''GEMINI_MODEL'' \<mapsto> ''gemini-flash'']"

definition example_world :: "(nat \<Rightarrow> exn + response option) \<Rightarrow> real world" where
  \<open>example_world service =
     \<lparr>load_dotenv = (\<lambda>env. env),
      py_float = (\<lambda>t. if t = ''0.0'' then Inr 0 else if t = ''0.1'' then Inr (1 / 10)
                     else Inl (''could not convert string to float: ''
                               @ [CHR 0x27] @ t @ [CHR 0x27])),
      genai_Client = (\<lambda>key. Inr 1),
      generate_content = (\<lambda>n h rq. service n),
      path_exists = (\<lambda>p. True),
      path_is_file = (\<lambda>p. True),
      os_access_R_OK = (\<lambda>p. True),
      path_str = (\<lambda>p. p),
      open_read = (\<lambda>p. if p = ''app/prompts/system.txt'' then Inr ''Read the document.''
                      else Inr ''Return the fields as JSON.''),
      Image_open = (\<lambda>p. Inr example_image),
      Image_load = (\<lambda>i. Inr i),
      json_loads = (\<lambda>t. if t = ''{"a":1}'' then Inr (JObject [(''a'', JInt 1)])
                       else Inl (Exn JSONDecodeError
                                   ''Expecting value: line 1 column 1 (char 0)''))\<rparr>\<close>

text \<open>A service that always answers, and one that is unavailable for its first \<open>k\<close> calls.\<close>

definition answering :: "response \<Rightarrow> nat \<Rightarrow> exn + response option" where
  "answering r = (\<lambda>n. Inr (Some r))"

definition unavailable_for :: "nat \<Rightarrow> response \<Rightarrow> nat \<Rightarrow> exn + response option" where
  "unavailable_for k r =
     (\<lambda>n. if n < k then Inl (Exn (OtherError ''ServerError'') ''503 UNAVAILABLE'')
          else Inr (Some r))"

text \<open>
  Two texts that are not JSON and that \<^verbatim>\<open>json.loads\<close> of CPython 3.11 does not reject with
  a \<^verbatim>\<open>JSONDecodeError\<close>: a thousand opening brackets, on which the decoder exceeds the
  recursion limit and raises \<^verbatim>\<open>RecursionError\<close>, and an opening bracket followed by five
  thousand digits, on which the conversion of the integer raises a plain \<^verbatim>\<open>ValueError\<close>
  (the limit is 4300 digits). \<open>cpython_json_world\<close> is the example world with these two
  answers of \<^verbatim>\<open>json.loads\<close> added.
\<close>

definition deep_array_text :: string where
  "deep_array_text = replicate 1000 (CHR ''['')"

definition long_integer_text :: string where
  "long_integer_text = CHR ''['' # replicate 5000 (CHR ''1'')"

definition cpython_json_world :: "(nat \<Rightarrow> exn + response option) \<Rightarrow> real world" where
  "cpython_json_world service =
     (example_world service)
       \<lparr>json_loads := (\<lambda>t.
          if t = deep_array_text then
            Inl (Exn (OtherError ''RecursionError'')
              ''maximum recursion depth exceeded while decoding a JSON array from a unicode string'')
          else if t = long_integer_text then
            Inl (Exn ValueError
              (''Exceeds the limit (4300 digits) for integer string conversion: ''
               @ ''value has 5000 digits; use sys.set_int_max_str_digits() to increase the limit''))
          else json_loads (example_world service) t)\<rparr>"

section \<open>Auxiliary facts\<close>

lemmas py_defs = ret_def raise_def lift_def then_do_def try_except_def

lemmas run_defs = py_defs get_temperature_def get_top_p_def get_api_key_def get_model_id_def
  priv_get_temperature_def priv_get_top_p_def priv_get_api_key_def priv_get_model_id_def
  ensure_env_loaded_def os_getenv_def Let_def
  validate_image_path_def validate_image_format_def load_image_def read_file_def
  GeminiOCRClient_new_def GeminiOCRClient_init_def GeminiOCRClient_def client_def
  extract_wrapped_def GeminiOCRClient_extract_def get_cached_prompt_def run_pipeline_def
  isinstance_def issubclass_def retry_loop.simps
  process_start_def example_image_def example_response_def example_env_def example_world_def
  answering_def unavailable_for_def

lemma ensure_env_loaded_fields:
  "Settings_temperature (ensure_env_loaded w s) = Settings_temperature s"
  "Settings_top_p (ensure_env_loaded w s) = Settings_top_p s"
  "load_dotenv_called (ensure_env_loaded w s) = True"
  by (simp_all add: ensure_env_loaded_def)

lemma read_file_cache: "read_file w path s = (r, s1) \<Longrightarrow> PROMPT_CACHE s1 = PROMPT_CACHE s"
  by (auto simp add: read_file_def Let_def split: if_splits sum.splits)

lemma read_file_opened:
  "read_file w path s = (r, s1) \<Longrightarrow>
     files_opened s1 = files_opened s \<or> files_opened s1 = path # files_opened s"
  by (auto simp add: read_file_def Let_def split: if_splits sum.splits)

lemma priv_get_api_key_frame:
  "priv_get_api_key w s = (r, s1) \<Longrightarrow>
     client_attr s1 = client_attr s \<and> handles_opened s1 = handles_opened s
     \<and> GeminiOCRClient_instance s1 = GeminiOCRClient_instance s \<and> allocated s1 = allocated s"
  by (auto simp add: priv_get_api_key_def ensure_env_loaded_def Let_def
      split: option.splits if_splits)

lemma init_error_class:
  "GeminiOCRClient_init w self s = (Inl e, s1) \<Longrightarrow>
     exn_class e = ConfigurationError \<or> exn_class e = APIError"
  by (auto simp add: GeminiOCRClient_init_def py_defs
      split: option.splits sum.splits prod.splits if_splits)

lemma init_error_frame:
  "GeminiOCRClient_init w self s = (Inl e, s1) \<Longrightarrow>
     client_attr s1 = client_attr s \<and> handles_opened s1 = handles_opened s
     \<and> GeminiOCRClient_instance s1 = GeminiOCRClient_instance s"
  by (auto simp add: GeminiOCRClient_init_def py_defs get_api_key_def
      split: option.splits sum.splits prod.splits if_splits dest: priv_get_api_key_frame)

lemma init_ok:
  "GeminiOCRClient_init w self s = (Inr u, s1) \<Longrightarrow>
     client_attr s1 self \<noteq> None \<and> GeminiOCRClient_instance s1 = GeminiOCRClient_instance s
     \<and> handles_opened s1 =
         (if client_attr s self = None then Suc (handles_opened s) else handles_opened s)"
  by (auto simp add: GeminiOCRClient_init_def py_defs get_api_key_def
      split: option.splits sum.splits prod.splits if_splits dest: priv_get_api_key_frame)

lemma new_fresh:
  "GeminiOCRClient_instance s = None \<Longrightarrow>
     GeminiOCRClient_new s =
       (Inr (allocated s),
        s\<lparr>GeminiOCRClient_instance := Some (allocated s), allocated := Suc (allocated s),
           client_attr := (client_attr s)(allocated s := None)\<rparr>)"
  by (simp add: GeminiOCRClient_new_def Let_def)

text \<open>The loop never makes more attempts than the maximum.\<close>

lemma retry_loop_le:
  "n \<le> m \<Longrightarrow> fst (snd (retry_loop m retry fn n s)) \<le> m"
proof (induction m retry fn n s rule: retry_loop.induct)
  case (1 max_attempts retry fn n s)
  show ?case
  proof (cases "fn s")
    case (Pair r s')
    show ?thesis
    proof (cases r)
      case (Inr v)
      with Pair "1.prems" show ?thesis by (simp add: retry_loop.simps)
    next
      case (Inl e)
      show ?thesis
      proof (cases "\<not> retry e \<or> max_attempts \<le> n")
        case True
        with Pair Inl "1.prems" show ?thesis by (auto simp add: retry_loop.simps)
      next
        case False
        then have r: "retry e" and lt: "\<not> max_attempts \<le> n" by auto
        have "fst (snd (retry_loop max_attempts retry fn (Suc n) s')) \<le> max_attempts"
          using "1.IH"[of r s' e] Pair Inl r lt by simp
        with Pair Inl r lt show ?thesis by (simp add: retry_loop.simps[of _ _ _ n])
      qed
    qed
  qed
qed

lemma get_temperature_settled:
  "get_temperature w s = (Inr t, s1) \<Longrightarrow>
     load_dotenv_called s1 \<and> Settings_temperature s1 = Some t"
  by (auto simp add: get_temperature_def priv_get_temperature_def ensure_env_loaded_def Let_def
      split: option.splits sum.splits if_splits)

lemma get_top_p_settled:
  "get_top_p w s1 = (Inr p, s2) \<Longrightarrow>
     load_dotenv_called s2 \<and> Settings_top_p s2 = Some p
     \<and> (load_dotenv_called s1 \<longrightarrow> Settings_temperature s2 = Settings_temperature s1)"
  by (auto simp add: get_top_p_def priv_get_top_p_def ensure_env_loaded_def Let_def
      split: option.splits sum.splits if_splits)

lemma model_id_unset:
  assumes "load_dotenv_called s" "Settings_model_id s = None"
    "environ s ''GEMINI_MODEL'' = None"
  shows "get_model_id w s =
     (Inl (Exn ConfigurationError ''GEMINI_MODEL environment variable is not set''), s)"
proof -
  have "s\<lparr>Settings_model_id := None\<rparr> = s" using assms(2) by (cases s) simp
  then show ?thesis using assms
    by (simp add: get_model_id_def priv_get_model_id_def ensure_env_loaded_def Let_def)
qed

lemma extract_wrapped_settled:
  assumes "load_dotenv_called s" "Settings_temperature s = Some t" "Settings_top_p s = Some p"
    "client_attr s self = Some h" "Settings_model_id s = None"
    "environ s ''GEMINI_MODEL'' = None"
  shows "extract_wrapped w self img sp up s =
     (Inl (Exn APIError
        ''Gemini API call failed: GEMINI_MODEL environment variable is not set''), s)"
  using assms model_id_unset[OF assms(1,5,6), of w]
  by (simp add: extract_wrapped_def py_defs client_def get_temperature_def get_top_p_def
      priv_get_temperature_def priv_get_top_p_def ensure_env_loaded_def Let_def
      isinstance_def issubclass_def)

text \<open>
  Whatever \<^verbatim>\<open>extract\<close> raises is an \<^verbatim>\<open>APIError\<close>: its last handler turns every other
  exception into one.
\<close>

lemma extract_wrapped_raises_APIError:
  "extract_wrapped w self img sp up s = (Inl e, s1) \<Longrightarrow> isinstance e APIError"
  by (auto simp add: extract_wrapped_def try_except_def raise_def isinstance_def issubclass_def
      split: prod.splits sum.splits if_splits)

text \<open>
  With the variable unset, the settings are what \<^verbatim>\<open>float\<close> makes of the literals
  \<^verbatim>\<open>"0.0"\<close> and \<^verbatim>\<open>"0.1"\<close>.
\<close>

lemma settings_defaults:
  "Settings_temperature s = None \<Longrightarrow> environ (ensure_env_loaded w s) ''TEMPERATURE'' = None
     \<Longrightarrow> py_float w ''0.0'' = Inr z
     \<Longrightarrow> fst (get_temperature w s) = Inr z"
  "Settings_top_p s = None \<Longrightarrow> environ (ensure_env_loaded w s) ''TOP_P'' = None
     \<Longrightarrow> py_float w ''0.1'' = Inr z
     \<Longrightarrow> fst (get_top_p w s) = Inr z"
  by (simp_all add: get_temperature_def priv_get_temperature_def get_top_p_def
      priv_get_top_p_def os_getenv_def ensure_env_loaded_fields Let_def)

section \<open>Claims\<close>

subsection \<open>Image loading\<close>

text \<open>
  Claim C8. An image that decodes but whose format is undetermined, or whose width or
  height is zero, makes \<^verbatim>\<open>load_image\<close> fail with \<^verbatim>\<open>ImageLoadError\<close>; and a decode
  failure, that is an \<^verbatim>\<open>OSError\<close> (I/O error) or an \<^verbatim>\<open>UnidentifiedImageError\<close>
  (unrecognised format) raised by \<^verbatim>\<open>Image.open\<close> or by \<^verbatim>\<open>image.load()\<close>, leaves
  \<^verbatim>\<open>load_image\<close> as an \<^verbatim>\<open>ImageLoadError\<close> carrying the path and the message.
\<close>

theorem load_image_failures_are_ImageLoadError:
  "(validate_image_path w path = Inr vp \<and> Image_open w vp = Inr opened
      \<and> Image_load w opened = Inr img
      \<and> (image_format img = None \<or> fst (image_size img) = 0 \<or> snd (image_size img) = 0)
     \<longrightarrow> (\<exists>m. load_image w path = Inl (Exn ImageLoadError m)))
   \<and> (validate_image_path w path = Inr vp \<and> Image_open w vp = Inl e
      \<and> (isinstance e OSError \<or> isinstance e UnidentifiedImageError)
     \<longrightarrow> load_image w path =
          Inl (Exn ImageLoadError (''Failed to load image from '' @ path @ '': '' @ str e)))
   \<and> (validate_image_path w path = Inr vp \<and> Image_open w vp = Inr opened
      \<and> Image_load w opened = Inl e
      \<and> (isinstance e OSError \<or> isinstance e UnidentifiedImageError)
     \<longrightarrow> load_image w path =
          Inl (Exn ImageLoadError (''Failed to load image from '' @ path @ '': '' @ str e)))"
  by (auto simp add: load_image_def validate_image_format_def isinstance_def issubclass_def)

theorem load_image_failures_witness:
  "load_image
     ((example_world (answering (example_response None)))
        \<lparr>Image_open := (\<lambda>p. Inr \<lparr>image_format = Some ''PNG'', image_size = (0, 10)\<rparr>)\<rparr>)
     ''images/sample.webp''
     = Inl (Exn ImageLoadError ''Image has invalid dimensions'')
   \<and> load_image
     ((example_world (answering (example_response None)))
        \<lparr>Image_open := (\<lambda>p. Inl (Exn UnidentifiedImageError ''cannot identify image file''))\<rparr>)
     ''images/sample.webp''
     = Inl (Exn ImageLoadError
         ''Failed to load image from images/sample.webp: cannot identify image file'')
   \<and> load_image
     ((example_world (answering (example_response None)))
        \<lparr>Image_load := (\<lambda>i. Inl (Exn OSError ''image file is truncated''))\<rparr>)
     ''images/sample.webp''
     = Inl (Exn ImageLoadError
         ''Failed to load image from images/sample.webp: image file is truncated'')"
proof -
  let ?w = "example_world (answering (example_response None))"
  let ?w1 = "?w\<lparr>Image_open := (\<lambda>p. Inr \<lparr>image_format = Some ''PNG'', image_size = (0, 10)\<rparr>)\<rparr>"
  let ?w2 = "?w\<lparr>Image_open := (\<lambda>p. Inl (Exn UnidentifiedImageError ''cannot identify image file''))\<rparr>"
  let ?w3 = "?w\<lparr>Image_load := (\<lambda>i. Inl (Exn OSError ''image file is truncated''))\<rparr>"
  let ?p = "''images/sample.webp''"
  have h1: "validate_image_path ?w1 ?p = Inr ?p \<and> Image_open ?w1 ?p
        = Inr \<lparr>image_format = Some ''PNG'', image_size = (0, 10)\<rparr>
      \<and> Image_load ?w1 \<lparr>image_format = Some ''PNG'', image_size = (0, 10)\<rparr>
        = Inr \<lparr>image_format = Some ''PNG'', image_size = (0, 10)\<rparr>
      \<and> (image_format \<lparr>image_format = Some ''PNG'', image_size = (0, 10)\<rparr> = None
          \<or> fst (image_size \<lparr>image_format = Some ''PNG'', image_size = (0::nat, 10::nat)\<rparr>) = 0
          \<or> snd (image_size \<lparr>image_format = Some ''PNG'', image_size = (0::nat, 10::nat)\<rparr>) = 0)"
    by (simp add: validate_image_path_def example_world_def)
  have h2: "validate_image_path ?w2 ?p = Inr ?p
      \<and> Image_open ?w2 ?p = Inl (Exn UnidentifiedImageError ''cannot identify image file'')
      \<and> (isinstance (Exn UnidentifiedImageError ''cannot identify image file'') OSError
          \<or> isinstance (Exn UnidentifiedImageError ''cannot identify image file'')
               UnidentifiedImageError)"
    by (simp add: validate_image_path_def example_world_def isinstance_def issubclass_def)
  have h3: "validate_image_path ?w3 ?p = Inr ?p \<and> Image_open ?w3 ?p = Inr example_image
      \<and> Image_load ?w3 example_image = Inl (Exn OSError ''image file is truncated'')
      \<and> (isinstance (Exn OSError ''image file is truncated'') OSError
          \<or> isinstance (Exn OSError ''image file is truncated'') UnidentifiedImageError)"
    by (simp add: validate_image_path_def example_world_def isinstance_def issubclass_def)
  from h1 load_image_failures_are_ImageLoadError
    [of ?w1 ?p ?p "\<lparr>image_format = Some ''PNG'', image_size = (0, 10)\<rparr>"
        "\<lparr>image_format = Some ''PNG'', image_size = (0, 10)\<rparr>"]
  obtain m where m: "load_image ?w1 ?p = Inl (Exn ImageLoadError m)" by blast
  have "load_image ?w1 ?p = Inl (Exn ImageLoadError ''Image has invalid dimensions'')"
    by (simp add: run_defs)
  moreover from h2 load_image_failures_are_ImageLoadError
    [of ?w2 ?p ?p _ _ "Exn UnidentifiedImageError ''cannot identify image file''"]
  have "load_image ?w2 ?p = Inl (Exn ImageLoadError
         ''Failed to load image from images/sample.webp: cannot identify image file'')"
    by simp
  moreover from h3 load_image_failures_are_ImageLoadError
    [of ?w3 ?p ?p example_image _ "Exn OSError ''image file is truncated''"]
  have "load_image ?w3 ?p = Inl (Exn ImageLoadError
         ''Failed to load image from images/sample.webp: image file is truncated'')"
    by simp
  ultimately show ?thesis using m by simp
qed

subsection \<open>The prompt cache\<close>

text \<open>
  Claim C7. When \<^verbatim>\<open>_get_cached_prompt\<close> has returned the content of a path, a second
  call on that path returns the same content and leaves the state as it is, whatever the
  file system has become: over the two calls the file has been opened at most once. A
  call on another path neither changes the cache entry of this path nor opens its file,
  so the two prompt paths are cached independently.
\<close>

theorem get_cached_prompt_idempotent:
  "(get_cached_prompt w path s = (Inr content, s1) \<longrightarrow>
      get_cached_prompt w' path s1 = (Inr content, s1)
      \<and> count_list (files_opened s1) path \<le> Suc (count_list (files_opened s) path))
   \<and> (other \<noteq> path \<longrightarrow>
      PROMPT_CACHE (snd (get_cached_prompt w other s)) path = PROMPT_CACHE s path
      \<and> count_list (files_opened (snd (get_cached_prompt w other s))) path
          = count_list (files_opened s) path)"
proof (intro conjI impI)
  assume a: "get_cached_prompt w path s = (Inr content, s1)"
  show "get_cached_prompt w' path s1 = (Inr content, s1)"
    using a by (auto simp add: get_cached_prompt_def split: option.splits sum.splits prod.splits)
  show "count_list (files_opened s1) path \<le> Suc (count_list (files_opened s) path)"
    using a
    by (auto simp add: get_cached_prompt_def split: option.splits sum.splits prod.splits
        dest!: read_file_opened)
next
  assume b: "other \<noteq> path"
  obtain r s2 where rs: "read_file w other s = (r, s2)" by (cases "read_file w other s")
  show "PROMPT_CACHE (snd (get_cached_prompt w other s)) path = PROMPT_CACHE s path"
    using b rs read_file_cache[OF rs]
    by (auto simp add: get_cached_prompt_def split: option.splits sum.splits)
  show "count_list (files_opened (snd (get_cached_prompt w other s))) path
          = count_list (files_opened s) path"
    using b rs read_file_opened[OF rs]
    by (auto simp add: get_cached_prompt_def split: option.splits sum.splits)
qed

text \<open>
  In the example world the system prompt is read once; the second call returns it from
  the cache although the file now reads differently; reading the extraction prompt leaves
  the entry of the system prompt alone.
\<close>

theorem get_cached_prompt_idempotent_witness:
  "fst (get_cached_prompt (example_world (answering (example_response None)))
          ''app/prompts/system.txt'' (process_start example_env))
     = Inr ''Read the document.''
   \<and> get_cached_prompt
        ((example_world (answering (example_response None)))
           \<lparr>open_read := (\<lambda>p. Inr ''Something else.'')\<rparr>)
        ''app/prompts/system.txt''
        (snd (get_cached_prompt (example_world (answering (example_response None)))
           ''app/prompts/system.txt'' (process_start example_env)))
     = (Inr ''Read the document.'',
        snd (get_cached_prompt (example_world (answering (example_response None)))
           ''app/prompts/system.txt'' (process_start example_env)))
   \<and> count_list (files_opened
        (snd (get_cached_prompt (example_world (answering (example_response None)))
           ''app/prompts/system.txt'' (process_start example_env))))
        ''app/prompts/system.txt'' \<le> 1
   \<and> PROMPT_CACHE
        (snd (get_cached_prompt (example_world (answering (example_response None)))
           ''app/prompts/extraction.txt'' (process_start example_env)))
        ''app/prompts/system.txt'' = None"
proof -
  let ?w = "example_world (answering (example_response None))"
  let ?w' = "?w\<lparr>open_read := (\<lambda>p. Inr ''Something else.'')\<rparr>"
  let ?s = "process_start example_env :: real proc"
  let ?sys = "''app/prompts/system.txt''"
  let ?ext = "''app/prompts/extraction.txt''"
  let ?s1 = "snd (get_cached_prompt ?w ?sys ?s)"
  have f: "fst (get_cached_prompt ?w ?sys ?s) = Inr ''Read the document.''"
    by (simp add: run_defs)
  then have h: "get_cached_prompt ?w ?sys ?s = (Inr ''Read the document.'', ?s1)"
    by (simp add: prod_eq_iff)
  have d: "?ext \<noteq> ?sys" by simp
  have z: "count_list (files_opened ?s) ?sys = 0" "PROMPT_CACHE ?s ?sys = None"
    by (simp_all add: process_start_def)
  from get_cached_prompt_idempotent
    [of ?w ?sys ?s "''Read the document.''" ?s1 ?w' ?ext] h d z f
  show ?thesis by simp
qed

text \<open>
  Claim C10. When the read of a path that is not in the cache fails,
  \<^verbatim>\<open>_get_cached_prompt\<close> raises what \<^verbatim>\<open>read_file\<close> raised and the cache is as it was, so
  a later call on the same path goes to \<^verbatim>\<open>read_file\<close> again and returns what that read
  gives.
\<close>

theorem get_cached_prompt_error_not_cached:
  assumes "PROMPT_CACHE s path = None" and "read_file w path s = (Inl e, s1)"
  shows "get_cached_prompt w path s = (Inl e, s1)
     \<and> PROMPT_CACHE s1 = PROMPT_CACHE s
     \<and> get_cached_prompt w' path s1 =
         (case read_file w' path s1 of
            (Inl e', s2) \<Rightarrow> (Inl e', s2)
          | (Inr content, s2) \<Rightarrow>
              (Inr content, s2\<lparr>PROMPT_CACHE := (PROMPT_CACHE s2)(path \<mapsto> content)\<rparr>))"
  using assms read_file_cache[OF assms(2)]
  by (simp add: get_cached_prompt_def)

text \<open>
  The system prompt is missing at the first call, which fails with
  \<^verbatim>\<open>ValidationError\<close>; once the file is there, the second call reads it.
\<close>

theorem get_cached_prompt_error_not_cached_witness:
  "fst (get_cached_prompt
          ((example_world (answering (example_response None)))\<lparr>path_exists := (\<lambda>p. False)\<rparr>)
          ''app/prompts/system.txt'' (process_start example_env))
     = Inl (Exn ValidationError ''File does not exist: app/prompts/system.txt'')
   \<and> PROMPT_CACHE
        (snd (get_cached_prompt
          ((example_world (answering (example_response None)))\<lparr>path_exists := (\<lambda>p. False)\<rparr>)
          ''app/prompts/system.txt'' (process_start example_env)))
        ''app/prompts/system.txt'' = None
   \<and> fst (get_cached_prompt (example_world (answering (example_response None)))
        ''app/prompts/system.txt''
        (snd (get_cached_prompt
          ((example_world (answering (example_response None)))\<lparr>path_exists := (\<lambda>p. False)\<rparr>)
          ''app/prompts/system.txt'' (process_start example_env))))
     = Inr ''Read the document.''"
proof -
  let ?w' = "example_world (answering (example_response None))"
  let ?w = "?w'\<lparr>path_exists := (\<lambda>p. False)\<rparr>"
  let ?s = "process_start example_env :: real proc"
  let ?sys = "''app/prompts/system.txt''"
  let ?e = "Exn ValidationError ''File does not exist: app/prompts/system.txt''"
  have h1: "PROMPT_CACHE ?s ?sys = None" by (simp add: process_start_def)
  have h2: "read_file ?w ?sys ?s = (Inl ?e, ?s)"
    by (simp add: read_file_def example_world_def)
  have r: "read_file ?w' ?sys ?s
      = (Inr ''Read the document.'', ?s\<lparr>files_opened := ?sys # files_opened ?s\<rparr>)"
    by (simp add: read_file_def example_world_def Let_def)
  from get_cached_prompt_error_not_cached[OF h1 h2, of ?w'] h1 r
  show ?thesis by simp
qed

subsection \<open>The client singleton\<close>

text \<open>
  Claim C6. In a process that has no client yet, when the construction
  \<^verbatim>\<open>GeminiOCRClient()\<close> returns an instance, it has opened exactly one handle, and a
  second construction returns the same instance and changes nothing: it opens no handle,
  whatever the world has become.
\<close>

theorem GeminiOCRClient_singleton:
  assumes "GeminiOCRClient_instance s = None" and "GeminiOCRClient w s = (Inr a, s1)"
  shows "GeminiOCRClient w' s1 = (Inr a, s1) \<and> handles_opened s1 = Suc (handles_opened s)"
proof -
  let ?s0 = "s\<lparr>GeminiOCRClient_instance := Some (allocated s), allocated := Suc (allocated s),
                client_attr := (client_attr s)(allocated s := None)\<rparr>"
  from assms(2) new_fresh[OF assms(1)] have a: "a = allocated s"
    and init: "GeminiOCRClient_init w (allocated s) ?s0 = (Inr (), s1)"
    by (auto simp add: GeminiOCRClient_def py_defs split: sum.splits prod.splits)
  from init_ok[OF init] have i: "GeminiOCRClient_instance s1 = Some a"
    and c: "client_attr s1 a \<noteq> None" and h: "handles_opened s1 = Suc (handles_opened s)"
    using a by auto
  have "GeminiOCRClient w' s1 = (Inr a, s1)"
    using i c
    by (auto simp add: GeminiOCRClient_def GeminiOCRClient_new_def GeminiOCRClient_init_def
        py_defs)
  with h show ?thesis by simp
qed

theorem GeminiOCRClient_singleton_witness:
  "fst (GeminiOCRClient (example_world (answering (example_response None)))
          (process_start example_env)) = Inr 0
   \<and> fst (GeminiOCRClient
        ((example_world (answering (example_response None)))\<lparr>genai_Client := (\<lambda>k. Inr 2)\<rparr>)
        (snd (GeminiOCRClient (example_world (answering (example_response None)))
           (process_start example_env)))) = Inr 0
   \<and> handles_opened (snd (GeminiOCRClient
        ((example_world (answering (example_response None)))\<lparr>genai_Client := (\<lambda>k. Inr 2)\<rparr>)
        (snd (GeminiOCRClient (example_world (answering (example_response None)))
           (process_start example_env))))) = 1"
proof -
  let ?w = "example_world (answering (example_response None))"
  let ?w' = "?w\<lparr>genai_Client := (\<lambda>k. Inr 2)\<rparr>"
  let ?s = "process_start example_env :: real proc"
  let ?s1 = "snd (GeminiOCRClient ?w ?s)"
  have h1: "GeminiOCRClient_instance ?s = None" "handles_opened ?s = 0"
    by (simp_all add: process_start_def)
  have f: "fst (GeminiOCRClient ?w ?s) = Inr 0" by (simp add: run_defs)
  then have h2: "GeminiOCRClient ?w ?s = (Inr 0, ?s1)" by (simp add: prod_eq_iff)
  from GeminiOCRClient_singleton[OF h1(1) h2, of ?w'] h1(2) f
  show ?thesis by simp
qed

text \<open>
  Claim C9. When the first construction raises, \<^verbatim>\<open>__new__\<close> has already stored the new
  instance and the instance has no handle; the exception is a \<^verbatim>\<open>ConfigurationError\<close> or
  an \<^verbatim>\<open>APIError\<close> and no handle has been opened. In any later state \<open>t\<close> of the process
  with that instance and those handles, a construction runs the initialisation again:
  if the key now resolves and \<^verbatim>\<open>genai.Client\<close> returns a handle, the construction
  returns the same instance, now holding the handle.
\<close>

theorem GeminiOCRClient_failure_not_sticky:
  assumes "GeminiOCRClient_instance s = None" and "GeminiOCRClient w s = (Inl e, s1)"
  shows "GeminiOCRClient_instance s1 = Some (allocated s)
     \<and> client_attr s1 (allocated s) = None
     \<and> handles_opened s1 = handles_opened s
     \<and> (exn_class e = ConfigurationError \<or> exn_class e = APIError)
     \<and> (GeminiOCRClient_instance t = GeminiOCRClient_instance s1
          \<and> client_attr t = client_attr s1
          \<and> get_api_key w' t = (Inr key, t1) \<and> genai_Client w' key = Inr h
        \<longrightarrow> GeminiOCRClient w' t =
              (Inr (allocated s),
               t1\<lparr>client_attr := (client_attr t1)(allocated s \<mapsto> h),
                   handles_opened := Suc (handles_opened t1)\<rparr>))"
proof -
  let ?s0 = "s\<lparr>GeminiOCRClient_instance := Some (allocated s), allocated := Suc (allocated s),
                client_attr := (client_attr s)(allocated s := None)\<rparr>"
  from assms(2) new_fresh[OF assms(1)]
  have init: "GeminiOCRClient_init w (allocated s) ?s0 = (Inl e, s1)"
    by (auto simp add: GeminiOCRClient_def py_defs split: sum.splits prod.splits)
  from init_error_frame[OF init] have i: "GeminiOCRClient_instance s1 = Some (allocated s)"
    and c: "client_attr s1 (allocated s) = None" and ho: "handles_opened s1 = handles_opened s"
    by auto
  have later: "GeminiOCRClient w' t =
              (Inr (allocated s),
               t1\<lparr>client_attr := (client_attr t1)(allocated s \<mapsto> h),
                   handles_opened := Suc (handles_opened t1)\<rparr>)"
    if "GeminiOCRClient_instance t = GeminiOCRClient_instance s1"
      "client_attr t = client_attr s1"
      "get_api_key w' t = (Inr key, t1)" "genai_Client w' key = Inr h"
    using that i c
    by (simp add: GeminiOCRClient_def GeminiOCRClient_new_def GeminiOCRClient_init_def py_defs)
  show ?thesis using i c ho init_error_class[OF init] later by blast
qed

text \<open>
  A process started without \<^verbatim>\<open>GEMINI_API_KEY\<close>: the first construction fails with
  \<^verbatim>\<open>ConfigurationError\<close>; after the variable has been set, the second construction
  returns the instance at address 0 with one handle opened.
\<close>

theorem GeminiOCRClient_failure_not_sticky_witness:
  "fst (GeminiOCRClient (example_world (answering (example_response None)))
          (process_start Map.empty))
     = Inl (Exn ConfigurationError
         ''Failed to initialize Gemini client: GEMINI_API_KEY environment variable is not set'')
   \<and> fst (GeminiOCRClient (example_world (answering (example_response None)))
        ((snd (GeminiOCRClient (example_world (answering (example_response None)))
            (process_start Map.empty)))\<lparr>environ := [''GEMINI_API_KEY'' \<mapsto> ''secret'']\<rparr>))
     = Inr 0
   \<and> handles_opened (snd (GeminiOCRClient (example_world (answering (example_response None)))
        ((snd (GeminiOCRClient (example_world (answering (example_response None)))
            (process_start Map.empty)))\<lparr>environ := [''GEMINI_API_KEY'' \<mapsto> ''secret'']\<rparr>)))
     = 1"
proof -
  let ?w = "example_world (answering (example_response None))"
  let ?s = "process_start Map.empty :: real proc"
  let ?e = "Exn ConfigurationError
         ''Failed to initialize Gemini client: GEMINI_API_KEY environment variable is not set''"
  let ?s1 = "snd (GeminiOCRClient ?w ?s)"
  let ?t = "?s1\<lparr>environ := [''GEMINI_API_KEY'' \<mapsto> ''secret'']\<rparr>"
  let ?t1 = "snd (get_api_key ?w ?t)"
  have h1: "GeminiOCRClient_instance ?s = None" by (simp add: process_start_def)
  have f: "fst (GeminiOCRClient ?w ?s) = Inl ?e" by (simp add: run_defs)
  then have h2: "GeminiOCRClient ?w ?s = (Inl ?e, ?s1)" by (simp add: prod_eq_iff)
  have h3: "GeminiOCRClient_instance ?t = GeminiOCRClient_instance ?s1"
    "client_attr ?t = client_attr ?s1" by simp_all
  have "fst (get_api_key ?w ?t) = Inr ''secret''" by (simp add: run_defs)
  then have h4: "get_api_key ?w ?t = (Inr ''secret'', ?t1)" by (simp add: prod_eq_iff)
  have h5: "genai_Client ?w ''secret'' = Inr 1" by (simp add: example_world_def)
  have k: "handles_opened ?t1 = 0" "allocated ?s = 0" by (simp_all add: run_defs)
  from GeminiOCRClient_failure_not_sticky[OF h1 h2, of ?t ?w "''secret''" ?t1 1] h3 h4 h5 k f
  show ?thesis by simp
qed

subsection \<open>The pipeline: parsing the response\<close>

text \<open>
  Claim C4. When the image loads, both prompts are fetched, the client is constructed and
  \<^verbatim>\<open>extract\<close> returns a response whose text is \<^verbatim>\<open>{"a":1}\<close>, which \<^verbatim>\<open>json.loads\<close> parses
  to the object with the single key \<^verbatim>\<open>a\<close> and value 1: if the response has no usage
  metadata, \<^verbatim>\<open>run_pipeline\<close> returns that object unchanged, with no \<^verbatim>\<open>usage_metadata\<close>
  key; if the usage metadata reports 5 input and 7 output tokens, \<^verbatim>\<open>run_pipeline\<close>
  returns the object with the key \<^verbatim>\<open>usage_metadata\<close> added after \<^verbatim>\<open>a\<close>, holding
  \<^verbatim>\<open>input_tokens\<close> 5, \<^verbatim>\<open>output_tokens\<close> 7 and the note \<^verbatim>\<open>Populated from Gemini API\<close>.
\<close>

theorem run_pipeline_json_round_trip:
  assumes \<open>load_image w image_path = Inr img\<close>
    and \<open>get_cached_prompt w ''app/prompts/system.txt'' s = (Inr sp, s1)\<close>
    and \<open>get_cached_prompt w ''app/prompts/extraction.txt'' s1 = (Inr up, s2)\<close>
    and \<open>GeminiOCRClient w s2 = (Inr c, s3)\<close>
    and \<open>GeminiOCRClient_extract w c img sp up s3 = (Inr response, s4)\<close>
    and \<open>response_text response = Some ''{"a":1}''\<close>
    and \<open>json_loads w ''{"a":1}'' = Inr (JObject [(''a'', JInt 1)])\<close>
  shows \<open>(usage_metadata response = None \<longrightarrow>
            run_pipeline w image_path s = (Inr (JObject [(''a'', JInt 1)]), s4))
       \<and> (usage_metadata response
             = Some \<lparr>prompt_token_count = 5, candidates_token_count = 7\<rparr> \<longrightarrow>
            run_pipeline w image_path s =
              (Inr (JObject [(''a'', JInt 1),
                 (''usage_metadata'', JObject [(''input_tokens'', JInt 5),
                    (''output_tokens'', JInt 7),
                    (''note'', JString ''Populated from Gemini API'')])]), s4))\<close>
  using assms by (simp add: run_pipeline_def py_defs)

theorem run_pipeline_json_round_trip_witness:
  \<open>fst (run_pipeline (example_world (answering (example_response None)))
          ''images/sample.webp'' (process_start example_env))
     = Inr (JObject [(''a'', JInt 1)])
   \<and> fst (run_pipeline
        (example_world (answering (example_response
           (Some \<lparr>prompt_token_count = 5, candidates_token_count = 7\<rparr>))))
        ''images/sample.webp'' (process_start example_env))
     = Inr (JObject [(''a'', JInt 1),
         (''usage_metadata'', JObject [(''input_tokens'', JInt 5),
            (''output_tokens'', JInt 7),
            (''note'', JString ''Populated from Gemini API'')])])\<close>
proof -
  let ?s = "process_start example_env :: real proc"
  let ?p = "''images/sample.webp''"
  let ?sys = "''app/prompts/system.txt''"
  let ?ext = "''app/prompts/extraction.txt''"
  let ?sp = "''Read the document.''"
  let ?up = "''Return the fields as JSON.''"
  have run: \<open>(usage_metadata (example_response u) = None \<longrightarrow>
        fst (run_pipeline (example_world (answering (example_response u))) ?p ?s)
          = Inr (JObject [(''a'', JInt 1)]))
     \<and> (usage_metadata (example_response u)
           = Some \<lparr>prompt_token_count = 5, candidates_token_count = 7\<rparr> \<longrightarrow>
        fst (run_pipeline (example_world (answering (example_response u))) ?p ?s)
          = Inr (JObject [(''a'', JInt 1),
              (''usage_metadata'', JObject [(''input_tokens'', JInt 5),
                 (''output_tokens'', JInt 7),
                 (''note'', JString ''Populated from Gemini API'')])]))\<close> for u
  proof -
    let ?w = "example_world (answering (example_response u))"
    let ?s1 = "snd (get_cached_prompt ?w ?sys ?s)"
    let ?s2 = "snd (get_cached_prompt ?w ?ext ?s1)"
    let ?s3 = "snd (GeminiOCRClient ?w ?s2)"
    let ?s4 = "snd (GeminiOCRClient_extract ?w 0 example_image ?sp ?up ?s3)"
    have h1: "load_image ?w ?p = Inr example_image" by (simp add: run_defs)
    have "fst (get_cached_prompt ?w ?sys ?s) = Inr ?sp" by (simp add: run_defs)
    then have h2: "get_cached_prompt ?w ?sys ?s = (Inr ?sp, ?s1)" by (simp add: prod_eq_iff)
    have "fst (get_cached_prompt ?w ?ext ?s1) = Inr ?up" by (simp add: run_defs)
    then have h3: "get_cached_prompt ?w ?ext ?s1 = (Inr ?up, ?s2)" by (simp add: prod_eq_iff)
    have "fst (GeminiOCRClient ?w ?s2) = Inr 0" by (simp add: run_defs)
    then have h4: "GeminiOCRClient ?w ?s2 = (Inr 0, ?s3)" by (simp add: prod_eq_iff)
    have "fst (GeminiOCRClient_extract ?w 0 example_image ?sp ?up ?s3)
        = Inr (example_response u)" by (simp add: run_defs)
    then have h5: "GeminiOCRClient_extract ?w 0 example_image ?sp ?up ?s3
        = (Inr (example_response u), ?s4)" by (simp add: prod_eq_iff)
    have h6: \<open>response_text (example_response u) = Some ''{"a":1}''\<close>
      by (simp add: example_response_def)
    have h7: \<open>json_loads ?w ''{"a":1}'' = Inr (JObject [(''a'', JInt 1)])\<close>
      by (simp add: example_world_def)
    from run_pipeline_json_round_trip[OF h1 h2 h3 h4 h5 h6 h7]
    show ?thesis by auto
  qed
  from run[of None]
    run[of "Some \<lparr>prompt_token_count = 5, candidates_token_count = 7\<rparr>"]
  show ?thesis by (simp add: example_response_def)
qed

text \<open>
  Claim C5, amended. When the image loads, both prompts are fetched, the client is
  constructed and \<^verbatim>\<open>extract\<close> returns a response whose text \<^verbatim>\<open>json.loads\<close> rejects by
  raising \<^verbatim>\<open>json.JSONDecodeError\<close>, \<^verbatim>\<open>run_pipeline\<close> raises \<^verbatim>\<open>JSONParseError\<close>, not
  the generic \<^verbatim>\<open>OCRException\<close>, and its message ends with the message of the decode
  error. The amendment is the condition on \<^verbatim>\<open>json.loads\<close>: the handler names
  \<^verbatim>\<open>json.JSONDecodeError\<close> only, and not every text that is not JSON is rejected with
  that class.
\<close>

theorem run_pipeline_malformed_json:
  assumes \<open>load_image w image_path = Inr img\<close>
    and \<open>get_cached_prompt w ''app/prompts/system.txt'' s = (Inr sp, s1)\<close>
    and \<open>get_cached_prompt w ''app/prompts/extraction.txt'' s1 = (Inr up, s2)\<close>
    and \<open>GeminiOCRClient w s2 = (Inr c, s3)\<close>
    and \<open>GeminiOCRClient_extract w c img sp up s3 = (Inr response, s4)\<close>
    and \<open>response_text response = Some t\<close>
    and \<open>json_loads w t = Inl e\<close> and \<open>isinstance e JSONDecodeError\<close>
  shows \<open>run_pipeline w image_path s =
           (Inl (Exn JSONParseError (''Failed to parse JSON response: '' @ str e)), s4)\<close>
  using assms by (simp add: run_pipeline_def py_defs isinstance_def issubclass_def)

theorem run_pipeline_malformed_json_witness:
  \<open>fst (run_pipeline
          (example_world (answering
             ((example_response None)\<lparr>response_text := Some ''not json''\<rparr>)))
          ''images/sample.webp'' (process_start example_env))
     = Inl (Exn JSONParseError
         ''Failed to parse JSON response: Expecting value: line 1 column 1 (char 0)'')\<close>
proof -
  let ?r = "(example_response None)\<lparr>response_text := Some ''not json''\<rparr>"
  let ?w = "example_world (answering ?r)"
  let ?s = "process_start example_env :: real proc"
  let ?p = "''images/sample.webp''"
  let ?sys = "''app/prompts/system.txt''"
  let ?ext = "''app/prompts/extraction.txt''"
  let ?sp = "''Read the document.''"
  let ?up = "''Return the fields as JSON.''"
  let ?e = "Exn JSONDecodeError ''Expecting value: line 1 column 1 (char 0)''"
  let ?s1 = "snd (get_cached_prompt ?w ?sys ?s)"
  let ?s2 = "snd (get_cached_prompt ?w ?ext ?s1)"
  let ?s3 = "snd (GeminiOCRClient ?w ?s2)"
  let ?s4 = "snd (GeminiOCRClient_extract ?w 0 example_image ?sp ?up ?s3)"
  have h1: "load_image ?w ?p = Inr example_image" by (simp add: run_defs)
  have "fst (get_cached_prompt ?w ?sys ?s) = Inr ?sp" by (simp add: run_defs)
  then have h2: "get_cached_prompt ?w ?sys ?s = (Inr ?sp, ?s1)" by (simp add: prod_eq_iff)
  have "fst (get_cached_prompt ?w ?ext ?s1) = Inr ?up" by (simp add: run_defs)
  then have h3: "get_cached_prompt ?w ?ext ?s1 = (Inr ?up, ?s2)" by (simp add: prod_eq_iff)
  have "fst (GeminiOCRClient ?w ?s2) = Inr 0" by (simp add: run_defs)
  then have h4: "GeminiOCRClient ?w ?s2 = (Inr 0, ?s3)" by (simp add: prod_eq_iff)
  have "fst (GeminiOCRClient_extract ?w 0 example_image ?sp ?up ?s3) = Inr ?r"
    by (simp add: run_defs)
  then have h5: "GeminiOCRClient_extract ?w 0 example_image ?sp ?up ?s3 = (Inr ?r, ?s4)"
    by (simp add: prod_eq_iff)
  have h6: "response_text ?r = Some ''not json''" by simp
  have h7: "json_loads ?w ''not json'' = Inl ?e" by (simp add: example_world_def)
  have h8: "isinstance ?e JSONDecodeError" by (simp add: isinstance_def issubclass_def)
  from run_pipeline_malformed_json[OF h1 h2 h3 h4 h5 h6 h7 h8]
  show ?thesis by simp
qed

text \<open>
  The claim as first stated, for every text that is not valid JSON, does not hold. On
  a thousand opening brackets \<^verbatim>\<open>json.loads\<close> raises \<^verbatim>\<open>RecursionError\<close>, and on an opening
  bracket followed by five thousand digits it raises a plain \<^verbatim>\<open>ValueError\<close>; the clause
  \<^verbatim>\<open>except json.JSONDecodeError\<close> catches neither, and the outer handler of
  \<^verbatim>\<open>run_pipeline\<close> raises the generic \<^verbatim>\<open>OCRException\<close>.
\<close>

theorem run_pipeline_invalid_json_counterexample:
  "fst (run_pipeline
          (cpython_json_world (answering
             ((example_response None)\<lparr>response_text := Some deep_array_text\<rparr>)))
          ''images/sample.webp'' (process_start example_env))
     = Inl (Exn OCRException
         (''Pipeline execution failed: ''
          @ ''maximum recursion depth exceeded while decoding a JSON array from a unicode string''))
   \<and> fst (run_pipeline
          (cpython_json_world (answering
             ((example_response None)\<lparr>response_text := Some long_integer_text\<rparr>)))
          ''images/sample.webp'' (process_start example_env))
     = Inl (Exn OCRException
         (''Pipeline execution failed: ''
          @ ''Exceeds the limit (4300 digits) for integer string conversion: ''
          @ ''value has 5000 digits; use sys.set_int_max_str_digits() to increase the limit''))"
proof -
  have ne: "deep_array_text \<noteq> []" "long_integer_text \<noteq> []"
    by (simp_all add: deep_array_text_def long_integer_text_def)
  have "length long_integer_text \<noteq> length deep_array_text"
    by (simp add: deep_array_text_def long_integer_text_def)
  then have d: "long_integer_text \<noteq> deep_array_text" by auto
  show ?thesis
    using ne d by (simp add: run_defs cpython_json_world_def)
qed

subsection \<open>The retry policy\<close>

text \<open>
  Claim C3. The retry policy around \<^verbatim>\<open>extract\<close> makes at most 3 attempts. If the
  function raises \<^verbatim>\<open>APIError\<close> on the first two attempts and returns on the third, the
  result of the third attempt is returned, after 3 attempts. If it raises \<^verbatim>\<open>APIError\<close> on
  all three attempts, 3 attempts are made and the \<^verbatim>\<open>APIError\<close> of the third attempt is
  raised as it is.
\<close>

theorem extract_retry_three_attempts:
  "fst (snd (retry_loop 3 (\<lambda>e. isinstance e APIError)
               (extract_wrapped w self img sp up) 1 s)) \<le> 3
   \<and> (extract_wrapped w self img sp up s = (Inl e1, s1) \<and> isinstance e1 APIError
      \<and> extract_wrapped w self img sp up s1 = (Inl e2, s2) \<and> isinstance e2 APIError
      \<and> extract_wrapped w self img sp up s2 = (Inr r, s3)
     \<longrightarrow> retry_loop 3 (\<lambda>e. isinstance e APIError) (extract_wrapped w self img sp up) 1 s
           = (Inr r, 3, s3)
        \<and> GeminiOCRClient_extract w self img sp up s = (Inr r, s3))
   \<and> (extract_wrapped w self img sp up s = (Inl e1, s1) \<and> isinstance e1 APIError
      \<and> extract_wrapped w self img sp up s1 = (Inl e2, s2) \<and> isinstance e2 APIError
      \<and> extract_wrapped w self img sp up s2 = (Inl e3, s3) \<and> isinstance e3 APIError
     \<longrightarrow> retry_loop 3 (\<lambda>e. isinstance e APIError) (extract_wrapped w self img sp up) 1 s
           = (Inl e3, 3, s3)
        \<and> GeminiOCRClient_extract w self img sp up s = (Inl e3, s3))"
proof (intro conjI impI)
  show "fst (snd (retry_loop 3 (\<lambda>e. isinstance e APIError)
               (extract_wrapped w self img sp up) 1 s)) \<le> 3"
    by (rule retry_loop_le) simp
next
  assume "extract_wrapped w self img sp up s = (Inl e1, s1) \<and> isinstance e1 APIError
      \<and> extract_wrapped w self img sp up s1 = (Inl e2, s2) \<and> isinstance e2 APIError
      \<and> extract_wrapped w self img sp up s2 = (Inr r, s3)"
  then show l: "retry_loop 3 (\<lambda>e. isinstance e APIError)
      (extract_wrapped w self img sp up) 1 s = (Inr r, 3, s3)"
    by (simp add: retry_loop.simps)
  then show "GeminiOCRClient_extract w self img sp up s = (Inr r, s3)"
    by (simp add: GeminiOCRClient_extract_def)
next
  assume "extract_wrapped w self img sp up s = (Inl e1, s1) \<and> isinstance e1 APIError
      \<and> extract_wrapped w self img sp up s1 = (Inl e2, s2) \<and> isinstance e2 APIError
      \<and> extract_wrapped w self img sp up s2 = (Inl e3, s3) \<and> isinstance e3 APIError"
  then show l: "retry_loop 3 (\<lambda>e. isinstance e APIError)
      (extract_wrapped w self img sp up) 1 s = (Inl e3, 3, s3)"
    by (simp add: retry_loop.simps)
  then show "GeminiOCRClient_extract w self img sp up s = (Inl e3, s3)"
    by (simp add: GeminiOCRClient_extract_def)
qed

text \<open>
  With a client constructed: a service that is unavailable twice and then answers gives
  the answer on the third attempt; a service that is unavailable three times gives the
  \<^verbatim>\<open>APIError\<close> of the third attempt, after three calls of the service.
\<close>

theorem extract_retry_three_attempts_witness:
  "fst (GeminiOCRClient_extract (example_world (unavailable_for 2 (example_response None)))
          0 example_image ''Read the document.'' ''Return the fields as JSON.''
          (snd (GeminiOCRClient (example_world (unavailable_for 2 (example_response None)))
             (process_start example_env))))
     = Inr (example_response None)
   \<and> retry_loop 3 (\<lambda>e. isinstance e APIError)
        (extract_wrapped (example_world (unavailable_for 3 (example_response None)))
          0 example_image ''Read the document.'' ''Return the fields as JSON.'') 1
          (snd (GeminiOCRClient (example_world (unavailable_for 3 (example_response None)))
             (process_start example_env)))
     = (Inl (Exn APIError ''Gemini API call failed: 503 UNAVAILABLE''), 3,
        (snd (GeminiOCRClient (example_world (unavailable_for 3 (example_response None)))
             (process_start example_env)))
          \<lparr>load_dotenv_called := True, Settings_model_id := Some ''gemini-flash'',
           Settings_temperature := Some 0, Settings_top_p := Some (1 / 10),
           generate_calls := 3\<rparr>)"
proof -
  let ?sp = "''Read the document.''"
  let ?up = "''Return the fields as JSON.''"
  let ?e = "Exn APIError ''Gemini API call failed: 503 UNAVAILABLE''"
  have api: "isinstance ?e APIError" by (simp add: isinstance_def issubclass_def)
  let ?w = "example_world (unavailable_for 2 (example_response None))"
  let ?s = "snd (GeminiOCRClient ?w (process_start example_env))"
  let ?f = "extract_wrapped ?w 0 example_image ?sp ?up"
  let ?s1 = "snd (?f ?s)"
  let ?s2 = "snd (?f ?s1)"
  let ?s3 = "snd (?f ?s2)"
  have "fst (?f ?s) = Inl ?e" by (simp add: run_defs)
  then have a1: "?f ?s = (Inl ?e, ?s1)" by (simp add: prod_eq_iff)
  have "fst (?f ?s1) = Inl ?e" by (simp add: run_defs)
  then have a2: "?f ?s1 = (Inl ?e, ?s2)" by (simp add: prod_eq_iff)
  have "fst (?f ?s2) = Inr (example_response None)" by (simp add: run_defs)
  then have a3: "?f ?s2 = (Inr (example_response None), ?s3)" by (simp add: prod_eq_iff)
  from extract_retry_three_attempts
    [where w = ?w and self = 0 and img = example_image and sp = ?sp and up = ?up
       and s = ?s and ?e1.0 = ?e and ?s1.0 = ?s1 and ?e2.0 = ?e and ?s2.0 = ?s2
       and r = "example_response None" and ?s3.0 = ?s3]
    a1 a2 a3 api
  have "GeminiOCRClient_extract ?w 0 example_image ?sp ?up ?s
      = (Inr (example_response None), ?s3)" by blast
  then have first: "fst (GeminiOCRClient_extract ?w 0 example_image ?sp ?up ?s)
      = Inr (example_response None)" by (simp only: fst_conv)
  let ?v = "example_world (unavailable_for 3 (example_response None))"
  let ?t = "snd (GeminiOCRClient ?v (process_start example_env))"
  let ?g = "extract_wrapped ?v 0 example_image ?sp ?up"
  let ?t1 = "snd (?g ?t)"
  let ?t2 = "snd (?g ?t1)"
  let ?t3 = "snd (?g ?t2)"
  have "fst (?g ?t) = Inl ?e" by (simp add: run_defs)
  then have b1: "?g ?t = (Inl ?e, ?t1)" by (simp add: prod_eq_iff)
  have "fst (?g ?t1) = Inl ?e" by (simp add: run_defs)
  then have b2: "?g ?t1 = (Inl ?e, ?t2)" by (simp add: prod_eq_iff)
  have "fst (?g ?t2) = Inl ?e" by (simp add: run_defs)
  then have b3: "?g ?t2 = (Inl ?e, ?t3)" by (simp add: prod_eq_iff)
  have fin: "?t3 = ?t\<lparr>load_dotenv_called := True, Settings_model_id := Some ''gemini-flash'',
           Settings_temperature := Some 0, Settings_top_p := Some (1 / 10),
           generate_calls := 3\<rparr>"
    by (simp add: run_defs)
  from extract_retry_three_attempts
    [where w = ?v and self = 0 and img = example_image and sp = ?sp and up = ?up
       and s = ?t and ?e1.0 = ?e and ?s1.0 = ?t1 and ?e2.0 = ?e and ?s2.0 = ?t2
       and ?e3.0 = ?e and ?s3.0 = ?t3]
    b1 b2 b3 api
  have "retry_loop 3 (\<lambda>e. isinstance e APIError) ?g 1 ?t = (Inl ?e, 3, ?t3)" by blast
  then have "retry_loop 3 (\<lambda>e. isinstance e APIError) ?g 1 ?t
      = (Inl ?e, 3, ?t\<lparr>load_dotenv_called := True, Settings_model_id := Some ''gemini-flash'',
           Settings_temperature := Some 0, Settings_top_p := Some (1 / 10),
           generate_calls := 3\<rparr>)"
    by (simp only: fin)
  with first show ?thesis by (rule conjI)
qed

subsection \<open>Where the code departs from its error classes\<close>

text \<open>
  Claim C1. The claim says that a \<^verbatim>\<open>ConfigurationError\<close> raised inside \<^verbatim>\<open>extract\<close> is
  never turned into an \<^verbatim>\<open>APIError\<close> and is not retried. The code does otherwise. With
  temperature and top-p resolved, a client holding a handle, and \<^verbatim>\<open>GEMINI_MODEL\<close> unset,
  \<^verbatim>\<open>Settings.get_model_id\<close> raises \<^verbatim>\<open>ConfigurationError\<close>; the handler
  \<^verbatim>\<open>except Exception\<close> of \<^verbatim>\<open>extract\<close> turns it into an \<^verbatim>\<open>APIError\<close>, the retry
  predicate accepts that, and the call is made three times before the \<^verbatim>\<open>APIError\<close> is
  raised.
\<close>

theorem extract_wraps_ConfigurationError:
  assumes T: "get_temperature w s = (Inr t, s1)"
    and P: "get_top_p w s1 = (Inr p, s2)"
    and C: "client_attr s2 self = Some h"
    and M: "Settings_model_id s2 = None" "environ s2 ''GEMINI_MODEL'' = None"
  shows "get_model_id w s2 =
           (Inl (Exn ConfigurationError ''GEMINI_MODEL environment variable is not set''), s2)
     \<and> extract_wrapped w self img sp up s =
           (Inl (Exn APIError
              ''Gemini API call failed: GEMINI_MODEL environment variable is not set''), s2)
     \<and> retry_loop 3 (\<lambda>e. isinstance e APIError) (extract_wrapped w self img sp up) 1 s =
           (Inl (Exn APIError
              ''Gemini API call failed: GEMINI_MODEL environment variable is not set''), 3, s2)
     \<and> GeminiOCRClient_extract w self img sp up s =
           (Inl (Exn APIError
              ''Gemini API call failed: GEMINI_MODEL environment variable is not set''), s2)"
proof -
  let ?e = "Exn APIError ''Gemini API call failed: GEMINI_MODEL environment variable is not set''"
  from get_temperature_settled[OF T] get_top_p_settled[OF P]
  have st: "load_dotenv_called s2" "Settings_temperature s2 = Some t" "Settings_top_p s2 = Some p"
    by auto
  have m: "get_model_id w s2 =
           (Inl (Exn ConfigurationError ''GEMINI_MODEL environment variable is not set''), s2)"
    using model_id_unset[OF st(1) M] .
  have first: "extract_wrapped w self img sp up s = (Inl ?e, s2)"
    using T P C m
    by (simp add: extract_wrapped_def py_defs client_def isinstance_def issubclass_def)
  have again: "extract_wrapped w self img sp up s2 = (Inl ?e, s2)"
    using extract_wrapped_settled[OF st C M] .
  have api: "isinstance ?e APIError" by (simp add: isinstance_def issubclass_def)
  have loop: "retry_loop 3 (\<lambda>e. isinstance e APIError) (extract_wrapped w self img sp up) 1 s
      = (Inl ?e, 3, s2)"
    using first again api by (simp add: retry_loop.simps)
  have "GeminiOCRClient_extract w self img sp up s = (Inl ?e, s2)"
    using loop by (simp add: GeminiOCRClient_extract_def)
  with m first loop show ?thesis by simp
qed

text \<open>
  A process with \<^verbatim>\<open>GEMINI_API_KEY\<close> set and \<^verbatim>\<open>GEMINI_MODEL\<close> unset, after the client has
  been constructed.
\<close>

theorem extract_wraps_ConfigurationError_witness:
  "GeminiOCRClient_extract (example_world (answering (example_response None)))
      0 example_image ''Read the document.'' ''Return the fields as JSON.''
      (snd (GeminiOCRClient (example_world (answering (example_response None)))
         (process_start [''GEMINI_API_KEY'' \<mapsto> ''secret''])))
     = (Inl (Exn APIError
          ''Gemini API call failed: GEMINI_MODEL environment variable is not set''),
        (snd (GeminiOCRClient (example_world (answering (example_response None)))
           (process_start [''GEMINI_API_KEY'' \<mapsto> ''secret''])))
          \<lparr>Settings_temperature := Some 0, Settings_top_p := Some (1 / 10)\<rparr>)"
proof -
  let ?w = "example_world (answering (example_response None))"
  let ?s = "snd (GeminiOCRClient ?w (process_start [''GEMINI_API_KEY'' \<mapsto> ''secret'']))"
  let ?s1 = "?s\<lparr>Settings_temperature := Some 0\<rparr>"
  let ?s2 = "?s\<lparr>Settings_temperature := Some 0, Settings_top_p := Some (1 / 10)\<rparr>"
  have T: "get_temperature ?w ?s = (Inr 0, ?s1)" by (simp add: run_defs)
  have P: "get_top_p ?w ?s1 = (Inr (1 / 10), ?s2)" by (simp add: run_defs)
  have C: "client_attr ?s2 0 = Some 1" by (simp add: run_defs)
  have M: "Settings_model_id ?s2 = None" "environ ?s2 ''GEMINI_MODEL'' = None"
    by (simp_all add: run_defs)
  from extract_wraps_ConfigurationError[OF T P C M]
  show ?thesis by blast
qed

text \<open>
  Claim C2. The claim says that a non-numeric \<^verbatim>\<open>TEMPERATURE\<close> or \<^verbatim>\<open>TOP_P\<close> makes the
  first access fail with \<^verbatim>\<open>ConfigurationError\<close>. The code does otherwise: on the first
  access of a setting whose variable holds a string that \<^verbatim>\<open>float\<close> rejects,
  \<^verbatim>\<open>Settings.get_temperature\<close> and \<^verbatim>\<open>Settings.get_top_p\<close> raise the \<^verbatim>\<open>ValueError\<close> of
  \<^verbatim>\<open>float\<close> itself, which is neither a \<^verbatim>\<open>ConfigurationError\<close> nor any other
  \<^verbatim>\<open>OCRException\<close>. (The defaults of the claim hold: see \<open>settings_defaults\<close>.)
\<close>

theorem non_numeric_setting_raises_ValueError:
  "(Settings_temperature s = None
      \<and> environ (ensure_env_loaded w s) ''TEMPERATURE'' = Some v \<and> py_float w v = Inl m
     \<longrightarrow> get_temperature w s = (Inl (Exn ValueError m), ensure_env_loaded w s))
   \<and> (Settings_top_p s = None
      \<and> environ (ensure_env_loaded w s) ''TOP_P'' = Some v \<and> py_float w v = Inl m
     \<longrightarrow> get_top_p w s = (Inl (Exn ValueError m), ensure_env_loaded w s))
   \<and> \<not> isinstance (Exn ValueError m) ConfigurationError
   \<and> \<not> isinstance (Exn ValueError m) OCRException"
  by (simp add: get_temperature_def priv_get_temperature_def get_top_p_def priv_get_top_p_def
      os_getenv_def ensure_env_loaded_fields isinstance_def issubclass_def Let_def)

theorem non_numeric_setting_raises_ValueError_witness:
  "fst (get_temperature (example_world (answering (example_response None)))
          (process_start [''TEMPERATURE'' \<mapsto> ''abc'']))
     = Inl (Exn ValueError
         (''could not convert string to float: '' @ [CHR 0x27] @ ''abc'' @ [CHR 0x27]))
   \<and> fst (get_top_p (example_world (answering (example_response None)))
          (process_start [''TOP_P'' \<mapsto> ''abc'']))
     = Inl (Exn ValueError
         (''could not convert string to float: '' @ [CHR 0x27] @ ''abc'' @ [CHR 0x27]))"
proof -
  let ?w = "example_world (answering (example_response None))"
  let ?s = "process_start [''TEMPERATURE'' \<mapsto> ''abc''] :: real proc"
  let ?t = "process_start [''TOP_P'' \<mapsto> ''abc''] :: real proc"
  let ?m = "''could not convert string to float: '' @ [CHR 0x27] @ ''abc'' @ [CHR 0x27]"
  have h1: "Settings_temperature ?s = None
      \<and> environ (ensure_env_loaded ?w ?s) ''TEMPERATURE'' = Some ''abc''
      \<and> py_float ?w ''abc'' = Inl ?m"
    by (simp add: process_start_def ensure_env_loaded_def example_world_def)
  have h2: "Settings_top_p ?t = None
      \<and> environ (ensure_env_loaded ?w ?t) ''TOP_P'' = Some ''abc''
      \<and> py_float ?w ''abc'' = Inl ?m"
    by (simp add: process_start_def ensure_env_loaded_def example_world_def)
  from non_numeric_setting_raises_ValueError[of ?s ?w "''abc''" ?m] h1
  have a: "get_temperature ?w ?s = (Inl (Exn ValueError ?m), ensure_env_loaded ?w ?s)"
    by blast
  from non_numeric_setting_raises_ValueError[of ?t ?w "''abc''" ?m] h2
  have b: "get_top_p ?w ?t = (Inl (Exn ValueError ?m), ensure_env_loaded ?w ?t)"
    by blast
  from a b show ?thesis by (simp only: fst_conv simp_thms)
qed

end
